theory Spec2Isabelle
  imports Main "HOL-Library.Word"
begin

section \<open>Values, files and the process state\<close>

text \<open>
  The service is \<^verbatim>\<open>ai-service/main.py\<close>: one process-wide model handle
  (\<^verbatim>\<open>tts_model\<close>), a startup hook, a health route and the synthesis route, plus the
  module \<^verbatim>\<open>ai-service/patch_transformers.py\<close>.  The handlers are straight-line
  Python whose interest lies in its effects, so the embedding threads an explicit process
  state (the global handle, the files on disk, what was printed, and the library calls made
  so far) through every operation, and every \<^verbatim>\<open>raise\<close> is a value.
\<close>

type_synonym path = string
type_synonym bytes = "8 word list"
type_synonym fs = "path \<rightharpoonup> bytes"

text \<open>An instance of a subclass of \<^verbatim>\<open>Exception\<close>: its class name and \<^verbatim>\<open>str(e)\<close>.\<close>

datatype py_exception = Exception (exc_class: string) (message: string)

datatype http_exception = HTTPException (status_code: nat) (detail: string)

datatype streaming_response = StreamingResponse (content: bytes) (media_type: string)

text \<open>
  The object \<^verbatim>\<open>TTS(...).to(device)\<close> returns.  The library is not part of the
  repository, so its behaviour is a field: \<open>tts_to_file text speaker_wav language file_path\<close>
  transforms the files and returns or raises.  \<open>truthy\<close> is what \<^verbatim>\<open>bool(obj)\<close> gives.
\<close>

record tts =
  truthy :: bool
  device :: string
  tts_to_file :: "string \<Rightarrow> path \<Rightarrow> string \<Rightarrow> path \<Rightarrow> fs \<Rightarrow> (py_exception + unit) \<times> fs"

text \<open>The library and system calls the service makes, in the order it makes them.\<close>

datatype call =
    Mkstemp path
  | Copyfileobj path bytes
  | Tts_to_file string path string path
  | Open_rb path
  | Os_remove path
  | TTS_init string
  | To_device string

text \<open>
  What the machine contributes: the capability probes of torch, the model constructor
  (which may download files), the name \<^verbatim>\<open>tempfile\<close> picks (without the suffix), and
  the failures the operating system may answer a call with (disk full, permissions).
\<close>

record env =
  cuda_is_available :: bool
  mps_is_available :: bool
  TTS :: "string \<Rightarrow> fs \<Rightarrow> (py_exception + tts) \<times> fs"
  to_error :: "tts \<Rightarrow> string \<Rightarrow> py_exception option"
  mkstemp_name :: "fs \<Rightarrow> path"
  os_error :: "call \<Rightarrow> fs \<Rightarrow> py_exception option"

record process =
  tts_model :: "tts option"
  files :: fs
  stdout :: "string list"
  calls :: "call list"

text \<open>The process as the module body leaves it: line 15 sets the handle to \<^verbatim>\<open>None\<close>.\<close>

definition initial_process :: "fs \<Rightarrow> process" where
  "initial_process disk = \<lparr>tts_model = None, files = disk, stdout = [], calls = []\<rparr>"

type_synonym 'a io = "process \<Rightarrow> (py_exception + 'a) \<times> process"

definition io_bind :: "'a io \<Rightarrow> ('a \<Rightarrow> 'b io) \<Rightarrow> 'b io" where
  "io_bind m f w = (case m w of (Inl e, w') \<Rightarrow> (Inl e, w') | (Inr x, w') \<Rightarrow> f x w')"

definition io_return :: "'a \<Rightarrow> 'a io" where
  "io_return x w = (Inr x, w)"

text \<open>\<^verbatim>\<open>try: body  except Exception as e: handler(e)\<close>\<close>

definition try_except :: "'a io \<Rightarrow> (py_exception \<Rightarrow> 'a io) \<Rightarrow> 'a io" where
  "try_except body handler w =
     (case body w of (Inl e, w') \<Rightarrow> handler e w' | (Inr x, w') \<Rightarrow> (Inr x, w'))"

definition print :: "string \<Rightarrow> process \<Rightarrow> process" where
  "print line w = w\<lparr>stdout := stdout w @ [line]\<rparr>"

definition called :: "call \<Rightarrow> process \<Rightarrow> process" where
  "called c w = w\<lparr>calls := calls w @ [c]\<rparr>"

subsection \<open>Strings\<close>

text \<open>The emoji of the log lines, as their UTF-8 bytes.\<close>

definition hourglass :: string where
  "hourglass = [CHR 0xE2, CHR 0x8F, CHR 0xB3]"

definition rocket :: string where
  "rocket = [CHR 0xF0, CHR 0x9F, CHR 0x9A, CHR 0x80]"

definition check_mark :: string where
  "check_mark = [CHR 0xE2, CHR 0x9C, CHR 0x85]"

definition cross_mark :: string where
  "cross_mark = [CHR 0xE2, CHR 0x9D, CHR 0x8C]"

definition warning_sign :: string where
  "warning_sign = [CHR 0xE2, CHR 0x9A, CHR 0xA0, CHR 0xEF, CHR 0xB8, CHR 0x8F]"

definition quoted :: "string \<Rightarrow> string" where
  "quoted s = [CHR 0x27] @ s @ [CHR 0x27]"

text \<open>
  \<^verbatim>\<open>s.replace(old, new)\<close>: every non-overlapping occurrence of \<open>old\<close>, from the left.
  With an empty \<open>old\<close> Python puts \<open>new\<close> before every character and at the end.
\<close>

function replace :: "string \<Rightarrow> string \<Rightarrow> string \<Rightarrow> string" where
  "replace s old new =
     (if old = [] then new @ concat (map (\<lambda>c. c # new) s)
      else if s = [] then []
      else if take (length old) s = old then new @ replace (drop (length old) s) old new
      else hd s # replace (tl s) old new)"
  by pat_completeness auto
termination
  by (relation "measure (\<lambda>(s, old, new). length s)") auto

declare replace.simps [simp del]

subsection \<open>The file operations the handler uses\<close>

definition FileNotFoundError :: "path \<Rightarrow> py_exception" where
  "FileNotFoundError p =
     Exception ''FileNotFoundError'' (''[Errno 2] No such file or directory: '' @ quoted p)"

definition FileExistsError :: py_exception where
  "FileExistsError =
     Exception ''FileExistsError'' ''[Errno 17] No usable temporary file name found''"

text \<open>
  \<^verbatim>\<open>tempfile.NamedTemporaryFile(delete=False, suffix=...)\<close>: a new, empty file whose
  name ends with the suffix; the file stays when the handle is closed.
\<close>

definition NamedTemporaryFile :: "env \<Rightarrow> string \<Rightarrow> path io" where
  "NamedTemporaryFile E suffix w =
     (let name = mkstemp_name E (files w) @ suffix;
          w1 = called (Mkstemp name) w
      in case os_error E (Mkstemp name) (files w) of
           Some e \<Rightarrow> (Inl e, w1)
         | None \<Rightarrow>
             (case files w name of
                Some old \<Rightarrow> (Inl FileExistsError, w1)
              | None \<Rightarrow> (Inr name, w1\<lparr>files := (files w)(name \<mapsto> [])\<rparr>)))"

text \<open>\<^verbatim>\<open>shutil.copyfileobj(speaker_wav.file, temp_wav)\<close> into the new, empty file.\<close>

definition copyfileobj :: "env \<Rightarrow> bytes \<Rightarrow> path \<Rightarrow> unit io" where
  "copyfileobj E src name w =
     (let w1 = called (Copyfileobj name src) w
      in case os_error E (Copyfileobj name src) (files w) of
           Some e \<Rightarrow> (Inl e, w1)
         | None \<Rightarrow> (Inr (), w1\<lparr>files := (files w)(name \<mapsto> src)\<rparr>))"

text \<open>\<^verbatim>\<open>with open(p, "rb") as f: f.read()\<close>\<close>

definition open_read :: "env \<Rightarrow> path \<Rightarrow> bytes io" where
  "open_read E p w =
     (let w1 = called (Open_rb p) w
      in case os_error E (Open_rb p) (files w) of
           Some e \<Rightarrow> (Inl e, w1)
         | None \<Rightarrow>
             (case files w p of
                None \<Rightarrow> (Inl (FileNotFoundError p), w1)
              | Some data \<Rightarrow> (Inr data, w1)))"

definition os_remove :: "env \<Rightarrow> path \<Rightarrow> unit io" where
  "os_remove E p w =
     (let w1 = called (Os_remove p) w
      in case os_error E (Os_remove p) (files w) of
           Some e \<Rightarrow> (Inl e, w1)
         | None \<Rightarrow>
             (case files w p of
                None \<Rightarrow> (Inl (FileNotFoundError p), w1)
              | Some data \<Rightarrow> (Inr (), w1\<lparr>files := (files w)(p := None)\<rparr>)))"

text \<open>
  The method call \<^verbatim>\<open>tts_model.tts_to_file(text=, speaker_wav=, language=, file_path=)\<close>
  on the global handle; on \<^verbatim>\<open>None\<close> the attribute lookup raises.
\<close>

definition call_tts_to_file :: "tts option \<Rightarrow> string \<Rightarrow> path \<Rightarrow> string \<Rightarrow> path \<Rightarrow> unit io" where
  "call_tts_to_file h text speaker language file_path w =
     (case h of
        None \<Rightarrow>
          (Inl (Exception ''AttributeError''
                  (quoted ''NoneType'' @ '' object has no attribute '' @ quoted ''tts_to_file'')), w)
      | Some m \<Rightarrow>
          (let w1 = called (Tts_to_file text speaker language file_path) w
           in case tts_to_file m text speaker language file_path (files w) of
                (r, fs') \<Rightarrow> (r, w1\<lparr>files := fs'\<rparr>)))"

section \<open>The startup hook\<close>

definition xtts_v2 :: string where
  "xtts_v2 = ''tts_models/multilingual/multi-dataset/xtts_v2''"

text \<open>\<^verbatim>\<open>TTS(name).to(device)\<close>: construct, then move.\<close>

definition TTS_to :: "env \<Rightarrow> string \<Rightarrow> string \<Rightarrow> tts io" where
  "TTS_to E name dev w =
     (let w1 = called (TTS_init name) w
      in case TTS E name (files w) of
           (Inl e, fs') \<Rightarrow> (Inl e, w1\<lparr>files := fs'\<rparr>)
         | (Inr m, fs') \<Rightarrow>
             (let w2 = called (To_device dev) (w1\<lparr>files := fs'\<rparr>)
              in case to_error E m dev of
                   Some e \<Rightarrow> (Inl e, w2)
                 | None \<Rightarrow> (Inr (m\<lparr>device := dev\<rparr>), w2)))"

text \<open>Lines 23 to 27: the value of \<^verbatim>\<open>device\<close> after the probes.\<close>

definition selected_device :: "env \<Rightarrow> string" where
  "selected_device E =
     (if cuda_is_available E then ''cuda''
      else if mps_is_available E then ''mps''
      else ''cpu'')"

definition startup_event :: "env \<Rightarrow> unit io" where
  "startup_event E w =
     (let w1 = print (hourglass @
                  '' Loading Coqui XTTS v2 model... This may take a while on first run.'') w;
          dev = selected_device E;
          w2 = print (rocket @ '' Using device: '' @ dev) w1
      in try_except
           (io_bind (TTS_to E xtts_v2 dev)
              (\<lambda>m w3. (Inr (), print (check_mark @ '' Model loaded successfully!'')
                                  (w3\<lparr>tts_model := Some m\<rparr>))))
           (\<lambda>e w3. (Inr (), print (cross_mark @ '' Failed to load model: '' @ message e) w3))
           w2)"

section \<open>The routes\<close>

datatype py_value = PyStr string | PyBool bool

text \<open>\<^verbatim>\<open>tts_model is not None\<close> and \<^verbatim>\<open>not tts_model\<close>\<close>

definition is_not_None :: "tts option \<Rightarrow> bool" where
  "is_not_None h = (case h of None \<Rightarrow> False | Some m \<Rightarrow> True)"

definition py_not :: "tts option \<Rightarrow> bool" where
  "py_not h = (case h of None \<Rightarrow> True | Some m \<Rightarrow> \<not> truthy m)"

definition read_root :: "process \<Rightarrow> (string \<times> py_value) list \<times> process" where
  "read_root w =
     ([(''status'', PyStr ''online''), (''model_loaded'', PyBool (is_not_None (tts_model w)))], w)"

text \<open>The body of the \<^verbatim>\<open>try\<close> of \<^verbatim>\<open>generate_speech\<close>, lines 55 to 80.\<close>

definition generate_try :: "env \<Rightarrow> tts option \<Rightarrow> string \<Rightarrow> string \<Rightarrow> bytes \<Rightarrow> streaming_response io" where
  "generate_try E h text language speaker_wav =
     io_bind (NamedTemporaryFile E ''.wav'') (\<lambda>temp_wav_path.
     io_bind (copyfileobj E speaker_wav temp_wav_path) (\<lambda>u1.
     (let output_path = replace temp_wav_path ''.wav'' ''_output.wav'' in
     io_bind (call_tts_to_file h text temp_wav_path language output_path) (\<lambda>u2.
     io_bind (open_read E output_path) (\<lambda>audio_data.
     io_bind (os_remove E temp_wav_path) (\<lambda>u3.
     io_bind (os_remove E output_path) (\<lambda>u4.
     io_return (StreamingResponse audio_data ''audio/wav''))))))))"

definition generate_speech ::
  "env \<Rightarrow> string \<Rightarrow> string \<Rightarrow> bytes \<Rightarrow> process \<Rightarrow> (http_exception + streaming_response) \<times> process"
where
  "generate_speech E text language speaker_wav w =
     (if py_not (tts_model w) then (Inl (HTTPException 503 ''TTS Model is not loaded''), w)
      else
        (case generate_try E (tts_model w) text language speaker_wav w of
           (Inr response, w') \<Rightarrow> (Inr response, w')
         | (Inl e, w') \<Rightarrow>
             (Inl (HTTPException 500 (message e)),
              print (cross_mark @ '' Generation error: '' @ message e) w')))"

section \<open>What the framework adds around the handlers\<close>

text \<open>
  The decorators \<^verbatim>\<open>@app.get("/")\<close> and \<^verbatim>\<open>@app.post("/generate")\<close> and the parameter
  declarations \<^verbatim>\<open>Form(...)\<close>, \<^verbatim>\<open>Form("en")\<close>, \<^verbatim>\<open>File(...)\<close> hand three jobs to
  FastAPI: binding the multipart form to the parameters before the handler is called,
  turning a returned value into a 200 response, and turning a raised
  \<^verbatim>\<open>HTTPException(status_code, detail)\<close> into a response of that status whose JSON body
  is \<^verbatim>\<open>{"detail": detail}\<close>.
\<close>

datatype json = JString string | JBool bool | JList "json list"

datatype http_body = JsonBody "(string \<times> json) list" | BytesBody bytes

datatype http_response = HttpResponse (status: nat) (content_type: string) (body: http_body)

text \<open>\<^verbatim>\<open>...\<close> (Ellipsis) marks a parameter as required; any other argument is its default.\<close>

datatype 'a param = Required | Default 'a

record form_data =
  text_field :: "string option"
  language_field :: "string option"
  speaker_wav_field :: "bytes option"

text \<open>
  The binding itself is FastAPI's, the repository only declares the parameters.  Its rule
  for a parameter declared with \<^verbatim>\<open>Form\<close>: a field that is absent, or present with the
  empty string, counts as not sent; a required parameter is then reported as missing and
  any other gets its default.  An uploaded file counts as sent whatever its content.
\<close>

definition bind_form :: "string param \<Rightarrow> string option \<Rightarrow> string option" where
  "bind_form p v =
     (if v = None \<or> v = Some [] then (case p of Required \<Rightarrow> None | Default d \<Rightarrow> Some d)
      else v)"

definition bind_file :: "bytes param \<Rightarrow> bytes option \<Rightarrow> bytes option" where
  "bind_file p v =
     (case v of
        None \<Rightarrow> (case p of Required \<Rightarrow> None | Default d \<Rightarrow> Some d)
      | Some upload \<Rightarrow> Some upload)"

text \<open>The signature of \<^verbatim>\<open>generate_speech\<close>, lines 46 to 50.\<close>

definition bind_generate :: "form_data \<Rightarrow> string list + string \<times> string \<times> bytes" where
  "bind_generate form =
     (let text = bind_form Required (text_field form);
          language = bind_form (Default ''en'') (language_field form);
          speaker_wav = bind_file Required (speaker_wav_field form);
          missing = (if text = None then [''text''] else []) @
                    (if language = None then [''language''] else []) @
                    (if speaker_wav = None then [''speaker_wav''] else [])
      in case (text, language, speaker_wav) of
           (Some t, Some l, Some s) \<Rightarrow> Inr (t, l, s)
         | _ \<Rightarrow> Inl missing)"

fun json_of :: "py_value \<Rightarrow> json" where
  "json_of (PyStr s) = JString s"
| "json_of (PyBool b) = JBool b"

definition app_get_root :: "process \<Rightarrow> http_response \<times> process" where
  "app_get_root w =
     (case read_root w of
        (payload, w') \<Rightarrow>
          (HttpResponse 200 ''application/json''
             (JsonBody (map (\<lambda>(k, v). (k, json_of v)) payload)), w'))"

definition http_of :: "http_exception + streaming_response \<Rightarrow> http_response" where
  "http_of r =
     (case r of
        Inl (HTTPException code d) \<Rightarrow>
          HttpResponse code ''application/json'' (JsonBody [(''detail'', JString d)])
      | Inr (StreamingResponse data mt) \<Rightarrow> HttpResponse 200 mt (BytesBody data))"

definition app_post_generate :: "env \<Rightarrow> form_data \<Rightarrow> process \<Rightarrow> http_response \<times> process" where
  "app_post_generate E form w =
     (case bind_generate form of
        Inl missing \<Rightarrow>
          (HttpResponse 422 ''application/json''
             (JsonBody [(''detail'', JList (map JString missing))]), w)
      | Inr (text, language, speaker_wav) \<Rightarrow>
          (case generate_speech E text language speaker_wav w of
             (r, w') \<Rightarrow> (http_of r, w')))"

section \<open>The compatibility module and the imports of main\<close>

text \<open>
  \<^verbatim>\<open>patch_transformers.py\<close> works on the namespace of the module \<^verbatim>\<open>transformers\<close>.
  An attribute of a module is found in its namespace or, failing that, by the function
  stored there as \<^verbatim>\<open>__getattr__\<close>.
\<close>

datatype py_object =
    PyClass string
  | PyTrue
  | PyList "string list"
  | PyFunction "string \<Rightarrow> py_exception + py_object"

type_synonym namespace = "string \<rightharpoonup> py_object"

definition AttributeError :: "string \<Rightarrow> py_exception" where
  "AttributeError name =
     Exception ''AttributeError''
       (''module '' @ quoted ''transformers'' @ '' has no attribute '' @ quoted name)"

definition TypeError :: py_exception where
  "TypeError = Exception ''TypeError'' ''object does not support this operation''"

definition module_getattr :: "namespace \<Rightarrow> string \<Rightarrow> py_exception + py_object" where
  "module_getattr ns name =
     (case ns name of
        Some v \<Rightarrow> Inr v
      | None \<Rightarrow>
          (case ns ''__getattr__'' of
             Some (PyFunction g) \<Rightarrow> g name
           | _ \<Rightarrow> Inl (AttributeError name)))"

text \<open>\<^verbatim>\<open>hasattr\<close> answers False on an AttributeError and lets any other exception through.\<close>

definition hasattr :: "namespace \<Rightarrow> string \<Rightarrow> py_exception + bool" where
  "hasattr ns name =
     (case module_getattr ns name of
        Inr v \<Rightarrow> Inr True
      | Inl e \<Rightarrow> if exc_class e = ''AttributeError'' then Inr False else Inl e)"

text \<open>The closure of lines 26 to 31, over the imported class and the earlier hook.\<close>

definition patched_getattr ::
  "py_object \<Rightarrow> py_object option \<Rightarrow> string \<Rightarrow> py_exception + py_object" where
  "patched_getattr BeamSearchScorer original_getattr name =
     (if name = ''BeamSearchScorer'' then Inr BeamSearchScorer
      else
        (case original_getattr of
           Some (PyFunction g) \<Rightarrow> g name
         | Some (PyList []) \<Rightarrow> Inl (AttributeError name)
         | Some other \<Rightarrow> Inl TypeError
         | None \<Rightarrow> Inl (AttributeError name)))"

text \<open>
  The interpreter, as far as imports go: the modules already imported, the namespace of
  \<^verbatim>\<open>transformers\<close>, what \<^verbatim>\<open>transformers.generation.beam_search\<close> offers under the name
  \<^verbatim>\<open>BeamSearchScorer\<close> (nothing in an old version), the console, and what
  \<^verbatim>\<open>TTS.api\<close> got when, at its own import, it asked \<^verbatim>\<open>transformers\<close> for
  \<^verbatim>\<open>BeamSearchScorer\<close>.
\<close>

record interpreter =
  sys_modules :: "string list"
  transformers :: namespace
  beam_search :: "py_object option"
  console :: "string list"
  tts_api_lookup :: "(py_exception + py_object) option"

definition echo :: "string \<Rightarrow> interpreter \<Rightarrow> interpreter" where
  "echo line I = I\<lparr>console := console I @ [line]\<rparr>"

text \<open>The \<^verbatim>\<open>try\<close> of lines 10 to 35; the result is the exception, if one was raised.\<close>

definition patch_try :: "interpreter \<Rightarrow> py_exception option \<times> interpreter" where
  "patch_try I =
     (case beam_search I of
        None \<Rightarrow>
          (Some (Exception ''ImportError''
                   (''cannot import name '' @ quoted ''BeamSearchScorer'' @ '' from '' @
                    quoted ''transformers.generation.beam_search'')), I)
      | Some BeamSearchScorer \<Rightarrow>
          (let I1 = I\<lparr>transformers := (transformers I)(''BeamSearchScorer'' \<mapsto> BeamSearchScorer)\<rparr>
           in case hasattr (transformers I1) ''__all__'' of
                Inl e \<Rightarrow> (Some e, I1)
              | Inr has_all \<Rightarrow>
                  (case (if has_all
                         then (case module_getattr (transformers I1) ''__all__'' of
                                 Inr (PyList names) \<Rightarrow>
                                   (if ''BeamSearchScorer'' \<notin> set names
                                    then Inr (I1\<lparr>transformers := (transformers I1)
                                                (''__all__'' \<mapsto> PyList (names @ [''BeamSearchScorer'']))\<rparr>)
                                    else Inr I1)
                               | Inr other \<Rightarrow> Inl TypeError
                               | Inl e \<Rightarrow> Inl e)
                         else Inr I1) of
                     Inl e \<Rightarrow> (Some e, I1)
                   | Inr I2 \<Rightarrow>
                       (case hasattr (transformers I2) ''_patched_getattr'' of
                          Inl e \<Rightarrow> (Some e, I2)
                        | Inr patched \<Rightarrow>
                            (let I3 =
                               (if \<not> patched
                                then I2\<lparr>transformers := (transformers I2)
                                       (''_patched_getattr'' \<mapsto> PyTrue,
                                        ''__getattr__'' \<mapsto>
                                          PyFunction (patched_getattr BeamSearchScorer
                                            (transformers I2 ''__getattr__'')))\<rparr>
                                else I2)
                             in (None, echo (check_mark @
                                   '' Patched BeamSearchScorer into transformers namespace'') I3))))))"

definition register :: "string \<Rightarrow> interpreter \<Rightarrow> interpreter" where
  "register name I =
     (if name \<in> set (sys_modules I) then I else I\<lparr>sys_modules := sys_modules I @ [name]\<rparr>)"

text \<open>The module body of \<^verbatim>\<open>patch_transformers.py\<close>.\<close>

definition patch_transformers :: "interpreter \<Rightarrow> interpreter" where
  "patch_transformers I =
     (case patch_try (register ''transformers'' I) of
        (None, I') \<Rightarrow> I'
      | (Some e, I') \<Rightarrow>
          echo (warning_sign @ '' Warning: Could not patch BeamSearchScorer: '' @ message e) I')"

text \<open>
  \<^verbatim>\<open>import name\<close>: a module already in \<^verbatim>\<open>sys.modules\<close> is not executed again.  Two
  module bodies matter here: the compatibility module's, above, and that of \<^verbatim>\<open>TTS.api\<close>,
  which looks \<^verbatim>\<open>BeamSearchScorer\<close> up in \<^verbatim>\<open>transformers\<close>.
\<close>

definition import_module :: "string \<Rightarrow> interpreter \<Rightarrow> interpreter" where
  "import_module name I =
     (if name \<in> set (sys_modules I) then I
      else
        (let I1 = I\<lparr>sys_modules := sys_modules I @ [name]\<rparr>
         in if name = ''patch_transformers'' then patch_transformers I1
            else if name = ''TTS.api''
            then (let I2 = register ''transformers'' I1
                  in I2\<lparr>tts_api_lookup :=
                          Some (module_getattr (transformers I2) ''BeamSearchScorer'')\<rparr>)
            else I1))"

text \<open>The import statements of \<^verbatim>\<open>main.py\<close>, lines 1 to 9, in order.\<close>

definition main_imports :: "string list" where
  "main_imports =
     [''os'', ''torch'', ''fastapi'', ''fastapi.responses'', ''TTS.api'', ''uvicorn'', ''io'',
      ''tempfile'', ''shutil'']"

definition run_imports :: "string list \<Rightarrow> interpreter \<Rightarrow> interpreter" where
  "run_imports names I = foldl (\<lambda>J name. import_module name J) I names"

section \<open>Sample inputs\<close>

text \<open>
  A model that synthesises four bytes for English and rejects any other language, and a
  machine without CUDA but with MPS on which every system call succeeds.
\<close>

definition sample_tts :: tts where
  "sample_tts =
     \<lparr>truthy = True, device = ''cpu'',
      tts_to_file = (\<lambda>text speaker language file_path disk.
        if language = ''en'' then (Inr (), disk(file_path \<mapsto> [82, 73, 70, 70]))
        else (Inl (Exception ''ValueError'' ''Language is not supported''), disk))\<rparr>"

definition sample_env :: env where
  "sample_env =
     \<lparr>cuda_is_available = False, mps_is_available = True,
      TTS = (\<lambda>name disk. (Inr sample_tts, disk)),
      to_error = (\<lambda>m dev. None),
      mkstemp_name = (\<lambda>disk. ''/tmp/tmpa1''),
      os_error = (\<lambda>c disk. None)\<rparr>"

definition failing_env :: env where
  "failing_env =
     sample_env\<lparr>TTS := (\<lambda>name disk. (Inl (Exception ''OSError'' ''no network''), disk))\<rparr>"

definition loaded_process :: process where
  "loaded_process = (initial_process Map.empty)\<lparr>tts_model := Some sample_tts\<rparr>"

text \<open>
  An interpreter that has imported nothing yet, with a version of \<^verbatim>\<open>transformers\<close> that
  offers \<^verbatim>\<open>BeamSearchScorer\<close> in \<^verbatim>\<open>transformers.generation.beam_search\<close> only.
\<close>

definition fresh_interpreter :: interpreter where
  "fresh_interpreter =
     \<lparr>sys_modules = [], transformers = Map.empty,
      beam_search = Some (PyClass ''BeamSearchScorer''), console = [], tts_api_lookup = None\<rparr>"

section \<open>The synthesis route without a model\<close>




section \<open>The health route\<close>

text \<open>
  Claim C9.  \<^verbatim>\<open>GET /\<close> takes nothing but the process state, answers HTTP 200 with the
  payload \<^verbatim>\<open>{"status": "online", "model_loaded": b}\<close> where \<open>b\<close> tells whether the handle
  is populated, leaves the process unchanged, and so answers the same when called again.
\<close>
theorem read_root_payload:
  "read_root w =
     ([(''status'', PyStr ''online''), (''model_loaded'', PyBool (tts_model w \<noteq> None))], w)
   \<and> app_get_root w =
     (HttpResponse 200 ''application/json''
        (JsonBody [(''status'', JString ''online''),
                   (''model_loaded'', JBool (tts_model w \<noteq> None))]), w)
   \<and> app_get_root (snd (app_get_root w)) = app_get_root w"
  by (simp add: read_root_def app_get_root_def is_not_None_def split: option.splits)

theorem read_root_payload_witness:
  "fst (app_get_root loaded_process) =
     HttpResponse 200 ''application/json''
       (JsonBody [(''status'', JString ''online''), (''model_loaded'', JBool True)])
   \<and> fst (app_get_root (initial_process Map.empty)) =
     HttpResponse 200 ''application/json''
       (JsonBody [(''status'', JString ''online''), (''model_loaded'', JBool False)])"
  using read_root_payload [of loaded_process] read_root_payload [of "initial_process Map.empty"]
  by (simp add: loaded_process_def initial_process_def)

text \<open>
  Claim C10.  The two routes test the handle differently (\<^verbatim>\<open>is not None\<close> against
  truthiness): for a handle that is an object whose truth value is false, the health route
  reports \<^verbatim>\<open>model_loaded\<close> as true while the synthesis route raises the 503.
\<close>
theorem falsy_handle_disagreement:
  assumes "tts_model w = Some m" and "\<not> truthy m"
  shows "fst (read_root w) = [(''status'', PyStr ''online''), (''model_loaded'', PyBool True)]
       \<and> generate_speech E text language speaker_wav w =
           (Inl (HTTPException 503 ''TTS Model is not loaded''), w)"
  using assms by (simp add: read_root_def is_not_None_def generate_speech_def py_not_def)

theorem falsy_handle_disagreement_witness:
  "fst (read_root (loaded_process\<lparr>tts_model := Some (sample_tts\<lparr>truthy := False\<rparr>)\<rparr>)) =
     [(''status'', PyStr ''online''), (''model_loaded'', PyBool True)]
   \<and> fst (generate_speech sample_env ''hello'' ''en'' [1, 2]
           (loaded_process\<lparr>tts_model := Some (sample_tts\<lparr>truthy := False\<rparr>)\<rparr>)) =
     Inl (HTTPException 503 ''TTS Model is not loaded'')"
  using falsy_handle_disagreement
    [of "loaded_process\<lparr>tts_model := Some (sample_tts\<lparr>truthy := False\<rparr>)\<rparr>"
        "sample_tts\<lparr>truthy := False\<rparr>" sample_env "''hello''" "''en''" "[1, 2]"]
  by simp

section \<open>The startup hook\<close>
lemma TTS_to_print [simp]:
  "TTS_to E name dev (print line w) =
     (fst (TTS_to E name dev w), print line (snd (TTS_to E name dev w)))"
  by (simp add: TTS_to_def print_def called_def Let_def split: prod.splits sum.splits option.splits)

lemma startup_event_unfold:
  "startup_event E w =
     (let w2 = print (rocket @ '' Using device: '' @ selected_device E)
                 (print (hourglass @
                    '' Loading Coqui XTTS v2 model... This may take a while on first run.'') w)
      in case TTS_to E xtts_v2 (selected_device E) w2 of
           (Inr m, w3) \<Rightarrow>
             (Inr (), print (check_mark @ '' Model loaded successfully!'')
                        (w3\<lparr>tts_model := Some m\<rparr>))
         | (Inl e, w3) \<Rightarrow>
             (Inr (), print (cross_mark @ '' Failed to load model: '' @ message e) w3))"
  by (simp add: startup_event_def try_except_def io_bind_def Let_def
      split: prod.splits sum.splits)

text \<open>
  Claim C8.  The startup hook probes CUDA first, then MPS, and falls back to the CPU; it
  constructs the model named \<^verbatim>\<open>tts_models/multilingual/multi-dataset/xtts_v2\<close> and
  moves it to exactly the device so chosen, and that moved model becomes the handle.
\<close>
theorem startup_event_device:
  "calls (snd (startup_event E w)) =
     calls w @ TTS_init xtts_v2 #
       (case TTS E xtts_v2 (files w) of
          (Inl e, disk) \<Rightarrow> []
        | (Inr m, disk) \<Rightarrow>
            [To_device (if cuda_is_available E then ''cuda''
                        else if mps_is_available E then ''mps'' else ''cpu'')])
   \<and> tts_model (snd (startup_event E w)) =
       (case TTS E xtts_v2 (files w) of
          (Inl e, disk) \<Rightarrow> tts_model w
        | (Inr m, disk) \<Rightarrow>
            (case to_error E m (if cuda_is_available E then ''cuda''
                                else if mps_is_available E then ''mps'' else ''cpu'') of
               Some e \<Rightarrow> tts_model w
             | None \<Rightarrow>
                 Some (m\<lparr>device := (if cuda_is_available E then ''cuda''
                                     else if mps_is_available E then ''mps'' else ''cpu'')\<rparr>)))"
  by (simp add: startup_event_unfold selected_device_def TTS_to_def print_def called_def Let_def
      split: prod.splits sum.splits option.splits)

theorem startup_event_device_witness:
  "calls (snd (startup_event sample_env (initial_process Map.empty))) =
     [TTS_init ''tts_models/multilingual/multi-dataset/xtts_v2'', To_device ''mps'']
   \<and> map_option device (tts_model (snd (startup_event sample_env (initial_process Map.empty)))) =
     Some ''mps''
   \<and> calls (snd (startup_event (sample_env\<lparr>cuda_is_available := True\<rparr>)
                   (initial_process Map.empty))) =
     [TTS_init ''tts_models/multilingual/multi-dataset/xtts_v2'', To_device ''cuda'']
   \<and> calls (snd (startup_event (sample_env\<lparr>mps_is_available := False\<rparr>)
                   (initial_process Map.empty))) =
     [TTS_init ''tts_models/multilingual/multi-dataset/xtts_v2'', To_device ''cpu'']"
  using startup_event_device [of sample_env "initial_process Map.empty"]
    startup_event_device [of "sample_env\<lparr>cuda_is_available := True\<rparr>" "initial_process Map.empty"]
    startup_event_device [of "sample_env\<lparr>mps_is_available := False\<rparr>" "initial_process Map.empty"]
  by (simp add: sample_env_def initial_process_def xtts_v2_def sample_tts_def)

text \<open>
  Claim C6.  If loading the model raises (in the constructor or in the move to the
  device), the startup hook still returns normally, having printed the failure with the
  exception's message; the handle stays unset, the health route keeps answering (with
  \<^verbatim>\<open>model_loaded\<close> false) and the synthesis route answers 503.
\<close>
theorem startup_event_load_failure:
  assumes "fst (TTS_to E xtts_v2 (selected_device E) (initial_process disk)) = Inl e"
  shows "fst (startup_event E (initial_process disk)) = Inr ()
       \<and> tts_model (snd (startup_event E (initial_process disk))) = None
       \<and> stdout (snd (startup_event E (initial_process disk))) =
           [hourglass @ '' Loading Coqui XTTS v2 model... This may take a while on first run.'',
            rocket @ '' Using device: '' @ selected_device E,
            cross_mark @ '' Failed to load model: '' @ message e]
       \<and> fst (app_get_root (snd (startup_event E (initial_process disk)))) =
           HttpResponse 200 ''application/json''
             (JsonBody [(''status'', JString ''online''), (''model_loaded'', JBool False)])
       \<and> fst (generate_speech E' text language speaker_wav
                (snd (startup_event E (initial_process disk)))) =
           Inl (HTTPException 503 ''TTS Model is not loaded'')"
proof -
  obtain w3 where load: "TTS_to E xtts_v2 (selected_device E) (initial_process disk) = (Inl e, w3)"
    using assms by (cases "TTS_to E xtts_v2 (selected_device E) (initial_process disk)") simp
  have keep: "tts_model w3 = None \<and> stdout w3 = []"
    using load
    by (auto simp: TTS_to_def initial_process_def called_def Let_def
        split: prod.splits sum.splits option.splits)
  have run: "startup_event E (initial_process disk) =
      (Inr (), print (cross_mark @ '' Failed to load model: '' @ message e)
         (print (rocket @ '' Using device: '' @ selected_device E)
           (print (hourglass @
              '' Loading Coqui XTTS v2 model... This may take a while on first run.'') w3)))"
    using load by (simp add: startup_event_unfold Let_def)
  show ?thesis
    using keep
    by (simp add: run print_def app_get_root_def read_root_def is_not_None_def
        generate_speech_def py_not_def)
qed

theorem startup_event_load_failure_witness:
  "fst (TTS_to failing_env xtts_v2 (selected_device failing_env) (initial_process Map.empty)) =
     Inl (Exception ''OSError'' ''no network'')
   \<and> fst (startup_event failing_env (initial_process Map.empty)) = Inr ()
   \<and> tts_model (snd (startup_event failing_env (initial_process Map.empty))) = None
   \<and> last (stdout (snd (startup_event failing_env (initial_process Map.empty)))) =
       cross_mark @ '' Failed to load model: no network''
   \<and> fst (generate_speech sample_env ''hello'' ''en'' [1, 2]
           (snd (startup_event failing_env (initial_process Map.empty)))) =
       Inl (HTTPException 503 ''TTS Model is not loaded'')"
proof -
  have h: "fst (TTS_to failing_env xtts_v2 (selected_device failing_env)
                 (initial_process Map.empty)) = Inl (Exception ''OSError'' ''no network'')"
    by (simp add: TTS_to_def failing_env_def sample_env_def Let_def)
  show ?thesis
    using h startup_event_load_failure [OF h, of sample_env "''hello''" "''en''" "[1, 2]"]
    by simp
qed


section \<open>The synthesis route with a model\<close>

lemma io_bind_Inr:
  assumes "io_bind m f w = (Inr y, w')"
  obtains x w1 where "m w = (Inr x, w1)" and "f x w1 = (Inr y, w')"
  using assms by (auto simp: io_bind_def split: prod.splits sum.splits)

lemma NamedTemporaryFile_Inr:
  assumes "NamedTemporaryFile E suffix w = (Inr p, w1)"
  shows "p = mkstemp_name E (files w) @ suffix"
    and "w1 = w\<lparr>files := (files w)(p \<mapsto> []), calls := calls w @ [Mkstemp p]\<rparr>"
  using assms
  by (auto simp: NamedTemporaryFile_def called_def Let_def split: option.splits)

lemma copyfileobj_Inr:
  assumes "copyfileobj E src p w = (Inr u, w1)"
  shows "w1 = w\<lparr>files := (files w)(p \<mapsto> src), calls := calls w @ [Copyfileobj p src]\<rparr>"
  using assms
  by (auto simp: copyfileobj_def called_def Let_def split: option.splits)

lemma call_tts_to_file_Inr:
  assumes "call_tts_to_file h text p language out w = (Inr u, w1)"
  obtains m disk where "h = Some m"
    and "tts_to_file m text p language out (files w) = (Inr (), disk)"
    and "w1 = w\<lparr>files := disk, calls := calls w @ [Tts_to_file text p language out]\<rparr>"
  using assms
  by (auto simp: call_tts_to_file_def called_def Let_def split: option.splits prod.splits)

lemma open_read_Inr:
  assumes "open_read E p w = (Inr data, w1)"
  shows "files w p = Some data" and "w1 = w\<lparr>calls := calls w @ [Open_rb p]\<rparr>"
  using assms
  by (auto simp: open_read_def called_def Let_def split: option.splits)

lemma os_remove_Inr:
  assumes "os_remove E p w = (Inr u, w1)"
  shows "w1 = w\<lparr>files := (files w)(p := None), calls := calls w @ [Os_remove p]\<rparr>"
  using assms
  by (auto simp: os_remove_def called_def Let_def split: option.splits)

lemma generate_try_Inr:
  assumes ok: "generate_try E h text language speaker_wav w = (Inr response, w')"
  defines "p \<equiv> mkstemp_name E (files w) @ ''.wav''"
  defines "out \<equiv> replace p ''.wav'' ''_output.wav''"
  shows "\<exists>m audio disk.
           h = Some m
         \<and> tts_to_file m text p language out ((files w)(p \<mapsto> speaker_wav)) = (Inr (), disk)
         \<and> disk out = Some audio
         \<and> response = StreamingResponse audio ''audio/wav''
         \<and> w' = w\<lparr>files := disk(p := None, out := None),
                   calls := calls w @
                     [Mkstemp p, Copyfileobj p speaker_wav, Tts_to_file text p language out,
                      Open_rb out, Os_remove p, Os_remove out]\<rparr>"
proof -
  from ok obtain p' w1 where
    s1: "NamedTemporaryFile E ''.wav'' w = (Inr p', w1)" and
    r1: "io_bind (copyfileobj E speaker_wav p') (\<lambda>u1.
          (let output_path = replace p' ''.wav'' ''_output.wav'' in
           io_bind (call_tts_to_file h text p' language output_path) (\<lambda>u2.
           io_bind (open_read E output_path) (\<lambda>audio_data.
           io_bind (os_remove E p') (\<lambda>u3.
           io_bind (os_remove E output_path) (\<lambda>u4.
           io_return (StreamingResponse audio_data ''audio/wav''))))))) w1 = (Inr response, w')"
    unfolding generate_try_def by (rule io_bind_Inr)
  have p': "p' = p" using NamedTemporaryFile_Inr(1) [OF s1] by (simp add: p_def)
  note w1 = NamedTemporaryFile_Inr(2) [OF s1, unfolded p']
  from r1 obtain u1 w2 where
    s2: "copyfileobj E speaker_wav p w1 = (Inr u1, w2)" and
    r2: "io_bind (call_tts_to_file h text p language out) (\<lambda>u2.
           io_bind (open_read E out) (\<lambda>audio_data.
           io_bind (os_remove E p) (\<lambda>u3.
           io_bind (os_remove E out) (\<lambda>u4.
           io_return (StreamingResponse audio_data ''audio/wav''))))) w2 = (Inr response, w')"
    unfolding p' by (rule io_bind_Inr) (simp add: out_def Let_def)
  note w2 = copyfileobj_Inr [OF s2]
  from r2 obtain u2 w3 where
    s3: "call_tts_to_file h text p language out w2 = (Inr u2, w3)" and
    r3: "io_bind (open_read E out) (\<lambda>audio_data.
           io_bind (os_remove E p) (\<lambda>u3.
           io_bind (os_remove E out) (\<lambda>u4.
           io_return (StreamingResponse audio_data ''audio/wav'')))) w3 = (Inr response, w')"
    by (rule io_bind_Inr)
  from s3 obtain m disk where
    h: "h = Some m" and
    synth: "tts_to_file m text p language out (files w2) = (Inr (), disk)" and
    w3: "w3 = w2\<lparr>files := disk, calls := calls w2 @ [Tts_to_file text p language out]\<rparr>"
    by (rule call_tts_to_file_Inr)
  from r3 obtain audio w4 where
    s4: "open_read E out w3 = (Inr audio, w4)" and
    r4: "io_bind (os_remove E p) (\<lambda>u3.
           io_bind (os_remove E out) (\<lambda>u4.
           io_return (StreamingResponse audio ''audio/wav''))) w4 = (Inr response, w')"
    by (rule io_bind_Inr)
  note audio = open_read_Inr(1) [OF s4] and w4 = open_read_Inr(2) [OF s4]
  from r4 obtain u3 w5 where
    s5: "os_remove E p w4 = (Inr u3, w5)" and
    r5: "io_bind (os_remove E out) (\<lambda>u4.
           io_return (StreamingResponse audio ''audio/wav'')) w5 = (Inr response, w')"
    by (rule io_bind_Inr)
  note w5 = os_remove_Inr [OF s5]
  from r5 obtain u4 w6 where
    s6: "os_remove E out w5 = (Inr u4, w6)" and
    r6: "io_return (StreamingResponse audio ''audio/wav'') w6 = (Inr response, w')"
    by (rule io_bind_Inr)
  note w6 = os_remove_Inr [OF s6]
  have resp: "response = StreamingResponse audio ''audio/wav''" and w': "w' = w6"
    using r6 by (simp_all add: io_return_def)
  have files_w2: "files w2 = (files w)(p \<mapsto> speaker_wav)"
    by (simp add: w2 w1)
  have "disk out = Some audio"
    using audio by (simp add: w3)
  moreover have "w' = w\<lparr>files := disk(p := None, out := None),
                   calls := calls w @
                     [Mkstemp p, Copyfileobj p speaker_wav, Tts_to_file text p language out,
                      Open_rb out, Os_remove p, Os_remove out]\<rparr>"
    by (simp add: w' w6 w5 w4 w3 w2 w1)
  ultimately show ?thesis
    using h synth resp files_w2 by simp
qed

text \<open>
  Claim C4.  A successful call of \<^verbatim>\<open>generate_speech\<close> has made exactly these calls, in
  this order: create the temporary file, copy the upload into it, synthesise with the
  text, the language and that path into the output path, read the output file, remove the
  temporary file, remove the output file.  The response carries the bytes the synthesis
  left in the output file, with media type \<^verbatim>\<open>audio/wav\<close> and status 200, and both files
  are gone afterwards.
\<close>
theorem generate_speech_success_procedure:
  assumes "generate_speech E text language speaker_wav w = (Inr response, w')"
  shows "\<exists>m audio disk.
           tts_model w = Some m
         \<and> calls w' = calls w @
             [Mkstemp (mkstemp_name E (files w) @ ''.wav''),
              Copyfileobj (mkstemp_name E (files w) @ ''.wav'') speaker_wav,
              Tts_to_file text (mkstemp_name E (files w) @ ''.wav'') language
                (replace (mkstemp_name E (files w) @ ''.wav'') ''.wav'' ''_output.wav''),
              Open_rb (replace (mkstemp_name E (files w) @ ''.wav'') ''.wav'' ''_output.wav''),
              Os_remove (mkstemp_name E (files w) @ ''.wav''),
              Os_remove (replace (mkstemp_name E (files w) @ ''.wav'') ''.wav'' ''_output.wav'')]
         \<and> tts_to_file m text (mkstemp_name E (files w) @ ''.wav'') language
             (replace (mkstemp_name E (files w) @ ''.wav'') ''.wav'' ''_output.wav'')
             ((files w)(mkstemp_name E (files w) @ ''.wav'' \<mapsto> speaker_wav)) = (Inr (), disk)
         \<and> disk (replace (mkstemp_name E (files w) @ ''.wav'') ''.wav'' ''_output.wav'') = Some audio
         \<and> response = StreamingResponse audio ''audio/wav''
         \<and> http_of (Inr response) = HttpResponse 200 ''audio/wav'' (BytesBody audio)
         \<and> files w' (mkstemp_name E (files w) @ ''.wav'') = None
         \<and> files w' (replace (mkstemp_name E (files w) @ ''.wav'') ''.wav'' ''_output.wav'') = None
         \<and> stdout w' = stdout w"
proof -
  have body: "generate_try E (tts_model w) text language speaker_wav w = (Inr response, w')"
    using assms
    by (auto simp: generate_speech_def split: if_splits prod.splits sum.splits)
  from generate_try_Inr [OF body] obtain m audio disk where
    "tts_model w = Some m"
    "tts_to_file m text (mkstemp_name E (files w) @ ''.wav'') language
       (replace (mkstemp_name E (files w) @ ''.wav'') ''.wav'' ''_output.wav'')
       ((files w)(mkstemp_name E (files w) @ ''.wav'' \<mapsto> speaker_wav)) = (Inr (), disk)"
    "disk (replace (mkstemp_name E (files w) @ ''.wav'') ''.wav'' ''_output.wav'') = Some audio"
    "response = StreamingResponse audio ''audio/wav''"
    "w' = w\<lparr>files := disk(mkstemp_name E (files w) @ ''.wav'' := None,
                          replace (mkstemp_name E (files w) @ ''.wav'') ''.wav'' ''_output.wav'' := None),
             calls := calls w @
               [Mkstemp (mkstemp_name E (files w) @ ''.wav''),
                Copyfileobj (mkstemp_name E (files w) @ ''.wav'') speaker_wav,
                Tts_to_file text (mkstemp_name E (files w) @ ''.wav'') language
                  (replace (mkstemp_name E (files w) @ ''.wav'') ''.wav'' ''_output.wav''),
                Open_rb (replace (mkstemp_name E (files w) @ ''.wav'') ''.wav'' ''_output.wav''),
                Os_remove (mkstemp_name E (files w) @ ''.wav''),
                Os_remove (replace (mkstemp_name E (files w) @ ''.wav'') ''.wav'' ''_output.wav'')]\<rparr>"
    by blast
  then show ?thesis
    by (simp add: http_of_def)
qed

lemma replace_sample:
  "replace ''/tmp/tmpa1.wav'' ''.wav'' ''_output.wav'' = ''/tmp/tmpa1_output.wav''"
  by (simp add: replace.simps)

lemma generate_speech_sample_ok:
  "generate_speech sample_env ''hello'' ''en'' [1, 2] loaded_process =
     (Inr (StreamingResponse [82, 73, 70, 70] ''audio/wav''),
      loaded_process\<lparr>files := Map.empty(''/tmp/tmpa1.wav'' := None, ''/tmp/tmpa1_output.wav'' := None),
        calls := [Mkstemp ''/tmp/tmpa1.wav'', Copyfileobj ''/tmp/tmpa1.wav'' [1, 2],
          Tts_to_file ''hello'' ''/tmp/tmpa1.wav'' ''en'' ''/tmp/tmpa1_output.wav'',
          Open_rb ''/tmp/tmpa1_output.wav'', Os_remove ''/tmp/tmpa1.wav'',
          Os_remove ''/tmp/tmpa1_output.wav'']\<rparr>)"
  by (simp add: generate_speech_def generate_try_def io_bind_def io_return_def py_not_def
      NamedTemporaryFile_def copyfileobj_def call_tts_to_file_def open_read_def os_remove_def
      called_def Let_def replace_sample sample_env_def sample_tts_def loaded_process_def
      initial_process_def)

theorem generate_speech_success_procedure_witness:
  "fst (generate_speech sample_env ''hello'' ''en'' [1, 2] loaded_process) =
     Inr (StreamingResponse [82, 73, 70, 70] ''audio/wav'')
   \<and> (\<exists>m audio disk.
        tts_model loaded_process = Some m
      \<and> calls (snd (generate_speech sample_env ''hello'' ''en'' [1, 2] loaded_process)) =
          [Mkstemp ''/tmp/tmpa1.wav'', Copyfileobj ''/tmp/tmpa1.wav'' [1, 2],
           Tts_to_file ''hello'' ''/tmp/tmpa1.wav'' ''en'' ''/tmp/tmpa1_output.wav'',
           Open_rb ''/tmp/tmpa1_output.wav'', Os_remove ''/tmp/tmpa1.wav'',
           Os_remove ''/tmp/tmpa1_output.wav'']
      \<and> tts_to_file m ''hello'' ''/tmp/tmpa1.wav'' ''en'' ''/tmp/tmpa1_output.wav''
          (Map.empty(''/tmp/tmpa1.wav'' \<mapsto> [1, 2])) = (Inr (), disk)
      \<and> disk ''/tmp/tmpa1_output.wav'' = Some audio
      \<and> http_of (fst (generate_speech sample_env ''hello'' ''en'' [1, 2] loaded_process)) =
          HttpResponse 200 ''audio/wav'' (BytesBody audio)
      \<and> files (snd (generate_speech sample_env ''hello'' ''en'' [1, 2] loaded_process))
          ''/tmp/tmpa1.wav'' = None
      \<and> files (snd (generate_speech sample_env ''hello'' ''en'' [1, 2] loaded_process))
          ''/tmp/tmpa1_output.wav'' = None)"
proof -
  let ?r = "StreamingResponse [82, 73, 70, 70] ''audio/wav''"
  obtain w' where run:
    "generate_speech sample_env ''hello'' ''en'' [1, 2] loaded_process = (Inr ?r, w')"
    by (simp add: generate_speech_sample_ok)
  have name: "mkstemp_name sample_env Map.empty @ ''.wav'' = ''/tmp/tmpa1.wav''"
    by (simp add: sample_env_def)
  have start: "files loaded_process = Map.empty" "calls loaded_process = []"
    by (simp_all add: loaded_process_def initial_process_def)
  from generate_speech_success_procedure [OF run]
  show ?thesis
    unfolding run start name replace_sample by auto
qed

text \<open>
  Claim C3.  With a usable handle, whatever exception the body of the \<^verbatim>\<open>try\<close> raises
  (creating or filling the temporary file, synthesising, reading the output, removing the
  files) is caught: the handler prints it and raises \<^verbatim>\<open>HTTPException(500)\<close> whose
  detail is the message of that exception, which the framework answers as HTTP 500 with
  \<^verbatim>\<open>{"detail": message}\<close>.  Nothing else leaves the handler.
\<close>
theorem generate_speech_exception_500:
  assumes "\<not> py_not (tts_model w)"
    and "generate_try E (tts_model w) text language speaker_wav w = (Inl e, w1)"
  shows "generate_speech E text language speaker_wav w =
           (Inl (HTTPException 500 (message e)),
            print (cross_mark @ '' Generation error: '' @ message e) w1)
       \<and> http_of (fst (generate_speech E text language speaker_wav w)) =
           HttpResponse 500 ''application/json'' (JsonBody [(''detail'', JString (message e))])"
  using assms by (simp add: generate_speech_def http_of_def)

lemma generate_try_sample_fails:
  "generate_try sample_env (Some sample_tts) ''hello'' ''xx'' [1, 2] loaded_process =
     (Inl (Exception ''ValueError'' ''Language is not supported''),
      loaded_process\<lparr>files := Map.empty(''/tmp/tmpa1.wav'' \<mapsto> [1, 2]),
        calls := [Mkstemp ''/tmp/tmpa1.wav'', Copyfileobj ''/tmp/tmpa1.wav'' [1, 2],
          Tts_to_file ''hello'' ''/tmp/tmpa1.wav'' ''xx'' ''/tmp/tmpa1_output.wav'']\<rparr>)"
  by (simp add: generate_try_def io_bind_def io_return_def
      NamedTemporaryFile_def copyfileobj_def call_tts_to_file_def open_read_def os_remove_def
      called_def Let_def replace_sample sample_env_def sample_tts_def loaded_process_def
      initial_process_def)

theorem generate_speech_exception_500_witness:
  "\<not> py_not (tts_model loaded_process)
   \<and> fst (generate_try sample_env (tts_model loaded_process) ''hello'' ''xx'' [1, 2] loaded_process)
       = Inl (Exception ''ValueError'' ''Language is not supported'')
   \<and> fst (generate_speech sample_env ''hello'' ''xx'' [1, 2] loaded_process) =
       Inl (HTTPException 500 ''Language is not supported'')
   \<and> http_of (fst (generate_speech sample_env ''hello'' ''xx'' [1, 2] loaded_process)) =
       HttpResponse 500 ''application/json''
         (JsonBody [(''detail'', JString ''Language is not supported'')])"
proof -
  have h: "\<not> py_not (tts_model loaded_process)"
    by (simp add: py_not_def loaded_process_def sample_tts_def)
  have m: "tts_model loaded_process = Some sample_tts"
    by (simp add: loaded_process_def)
  have b: "generate_try sample_env (tts_model loaded_process) ''hello'' ''xx'' [1, 2]
             loaded_process =
           (Inl (Exception ''ValueError'' ''Language is not supported''),
            loaded_process\<lparr>files := Map.empty(''/tmp/tmpa1.wav'' \<mapsto> [1, 2]),
              calls := [Mkstemp ''/tmp/tmpa1.wav'', Copyfileobj ''/tmp/tmpa1.wav'' [1, 2],
                Tts_to_file ''hello'' ''/tmp/tmpa1.wav'' ''xx'' ''/tmp/tmpa1_output.wav'']\<rparr>)"
    unfolding m by (rule generate_try_sample_fails)
  show ?thesis
    using h b generate_speech_exception_500 [OF h b] by (simp add: http_of_def)
qed

text \<open>Where the exception of the body comes from: each step hands its own on.\<close>

lemma generate_try_raises_mkstemp:
  "os_error E (Mkstemp (mkstemp_name E (files w) @ ''.wav'')) (files w) = Some e \<Longrightarrow>
   fst (generate_try E h text language speaker_wav w) = Inl e"
  by (simp add: generate_try_def io_bind_def NamedTemporaryFile_def Let_def)

lemma generate_try_raises_synthesis:
  assumes "NamedTemporaryFile E ''.wav'' w = (Inr p, w1)"
    and "copyfileobj E speaker_wav p w1 = (Inr (), w2)"
    and "fst (tts_to_file m text p language (replace p ''.wav'' ''_output.wav'') (files w2)) = Inl e"
  shows "fst (generate_try E (Some m) text language speaker_wav w) = Inl e"
  using assms
  by (cases "tts_to_file m text p language (replace p ''.wav'' ''_output.wav'') (files w2)")
    (simp add: generate_try_def io_bind_def call_tts_to_file_def Let_def)

lemma generate_try_raises_read:
  assumes "NamedTemporaryFile E ''.wav'' w = (Inr p, w1)"
    and "copyfileobj E speaker_wav p w1 = (Inr (), w2)"
    and "call_tts_to_file h text p language (replace p ''.wav'' ''_output.wav'') w2 = (Inr (), w3)"
    and "fst (open_read E (replace p ''.wav'' ''_output.wav'') w3) = Inl e"
  shows "fst (generate_try E h text language speaker_wav w) = Inl e"
  using assms
  by (cases "open_read E (replace p ''.wav'' ''_output.wav'') w3")
    (simp add: generate_try_def io_bind_def Let_def)

text \<open>
  When the synthesis raises, the handler returns with the files exactly as the synthesis
  left them: nothing is removed on that path.
\<close>

lemma generate_speech_synthesis_failure_files:
  assumes "tts_model w = Some m" and "truthy m"
    and "p = mkstemp_name E (files w) @ ''.wav''"
    and "os_error E (Mkstemp p) (files w) = None" and "files w p = None"
    and "os_error E (Copyfileobj p speaker_wav) ((files w)(p \<mapsto> [])) = None"
    and "tts_to_file m text p language (replace p ''.wav'' ''_output.wav'')
           ((files w)(p \<mapsto> speaker_wav)) = (Inl e, disk)"
  shows "fst (generate_speech E text language speaker_wav w) = Inl (HTTPException 500 (message e))"
    and "files (snd (generate_speech E text language speaker_wav w)) = disk"
  using assms
  by (simp_all add: generate_speech_def py_not_def generate_try_def io_bind_def
      NamedTemporaryFile_def copyfileobj_def call_tts_to_file_def called_def print_def Let_def)

text \<open>
  Claim C1 asks that no temporary file of a request outlives the handler on any path.  The
  handler removes both files on the successful path only.  Here the synthesis raises (the
  language is not supported): the answer is the 500, and the reference sample the request
  wrote to \<^verbatim>\<open>/tmp/tmpa1.wav\<close>, which did not exist before, is still on disk afterwards;
  no \<^verbatim>\<open>os.remove\<close> was called.
\<close>
theorem generate_speech_failure_leaves_reference_file:
  "fst (generate_speech sample_env ''hello'' ''xx'' [1, 2] loaded_process) =
     Inl (HTTPException 500 ''Language is not supported'')
   \<and> files loaded_process ''/tmp/tmpa1.wav'' = None
   \<and> files (snd (generate_speech sample_env ''hello'' ''xx'' [1, 2] loaded_process))
       ''/tmp/tmpa1.wav'' = Some [1, 2]
   \<and> calls (snd (generate_speech sample_env ''hello'' ''xx'' [1, 2] loaded_process)) =
       [Mkstemp ''/tmp/tmpa1.wav'', Copyfileobj ''/tmp/tmpa1.wav'' [1, 2],
        Tts_to_file ''hello'' ''/tmp/tmpa1.wav'' ''xx'' ''/tmp/tmpa1_output.wav'']"
  by (simp add: generate_speech_def py_not_def generate_try_def io_bind_def io_return_def
      NamedTemporaryFile_def copyfileobj_def call_tts_to_file_def open_read_def os_remove_def
      called_def print_def Let_def replace_sample sample_env_def sample_tts_def loaded_process_def
      initial_process_def)

section \<open>Imports and the compatibility module\<close>

lemma import_module_keeps:
  assumes "name \<noteq> ''patch_transformers''"
  shows "transformers (import_module name I) = transformers I"
    and "console (import_module name I) = console I"
    and "beam_search (import_module name I) = beam_search I"
  using assms by (simp_all add: import_module_def register_def Let_def)

lemma import_module_sys_modules:
  assumes "name \<noteq> ''patch_transformers''"
  shows "set (sys_modules (import_module name I)) =
           (if name = ''TTS.api'' \<and> name \<notin> set (sys_modules I)
            then {name, ''transformers''} \<union> set (sys_modules I)
            else insert name (set (sys_modules I)))"
  using assms by (auto simp: import_module_def register_def Let_def)

lemma import_module_lookup_other:
  assumes "name \<noteq> ''patch_transformers''" and "name \<noteq> ''TTS.api''"
  shows "tts_api_lookup (import_module name I) = tts_api_lookup I"
  using assms by (simp add: import_module_def Let_def)

lemma import_TTS_api_lookup:
  assumes "''TTS.api'' \<notin> set (sys_modules I)"
  shows "tts_api_lookup (import_module ''TTS.api'' I) =
           Some (module_getattr (transformers I) ''BeamSearchScorer'')"
  using assms by (simp add: import_module_def register_def Let_def)

lemma run_imports_Cons:
  "run_imports (name # names) I = run_imports names (import_module name I)"
  by (simp add: run_imports_def)

lemma run_imports_Nil: "run_imports [] I = I"
  by (simp add: run_imports_def)

lemma run_imports_keeps:
  assumes "''patch_transformers'' \<notin> set names"
    and "''patch_transformers'' \<notin> set (sys_modules I)"
  shows "''patch_transformers'' \<notin> set (sys_modules (run_imports names I))
       \<and> transformers (run_imports names I) = transformers I
       \<and> console (run_imports names I) = console I"
  using assms
proof (induction names arbitrary: I)
  case Nil
  then show ?case by (simp add: run_imports_Nil)
next
  case (Cons name names)
  then have ne: "name \<noteq> ''patch_transformers''" and rest: "''patch_transformers'' \<notin> set names"
    by auto
  have "''patch_transformers'' \<notin> set (sys_modules (import_module name I))"
    using ne Cons.prems(2) by (simp add: import_module_sys_modules)
  from Cons.IH [OF rest this] show ?case
    by (simp add: run_imports_Cons import_module_keeps [OF ne])
qed

lemma run_imports_lookup_other:
  assumes "''patch_transformers'' \<notin> set names" and "''TTS.api'' \<notin> set names"
  shows "tts_api_lookup (run_imports names I) = tts_api_lookup I"
  using assms
proof (induction names arbitrary: I)
  case Nil
  then show ?case by (simp add: run_imports_Nil)
next
  case (Cons name names)
  then have "name \<noteq> ''patch_transformers''" and "name \<noteq> ''TTS.api''"
    by auto
  then have "tts_api_lookup (import_module name I) = tts_api_lookup I"
    by (rule import_module_lookup_other)
  with Cons show ?case
    by (simp add: run_imports_Cons)
qed

text \<open>
  Claim C5 asks that the compatibility module run once before \<^verbatim>\<open>TTS.api\<close> is
  imported, as the module's own docstring demands.  The import statements of
  \<^verbatim>\<open>main.py\<close> do not name it: started from any interpreter that has imported neither
  module, they leave \<^verbatim>\<open>patch_transformers\<close> unimported, the namespace of
  \<^verbatim>\<open>transformers\<close> and the console untouched, and \<^verbatim>\<open>TTS.api\<close> finds under the name
  \<^verbatim>\<open>BeamSearchScorer\<close> exactly what the unpatched namespace gives.
\<close>
theorem main_imports_never_run_patch:
  assumes "''patch_transformers'' \<notin> set (sys_modules I)" and "''TTS.api'' \<notin> set (sys_modules I)"
  shows "''patch_transformers'' \<notin> set (sys_modules (run_imports main_imports I))
       \<and> transformers (run_imports main_imports I) = transformers I
       \<and> console (run_imports main_imports I) = console I
       \<and> tts_api_lookup (run_imports main_imports I) =
           Some (module_getattr (transformers I) ''BeamSearchScorer'')"
proof -
  let ?before = "[''os'', ''torch'', ''fastapi'', ''fastapi.responses'']"
  let ?after = "[''uvicorn'', ''io'', ''tempfile'', ''shutil'']"
  let ?J = "run_imports ?before I"
  have split: "run_imports main_imports I =
      run_imports ?after (import_module ''TTS.api'' ?J)"
    by (simp add: main_imports_def run_imports_def)
  have all: "''patch_transformers'' \<notin> set main_imports"
    by (simp add: main_imports_def)
  have J: "transformers ?J = transformers I"
    using run_imports_keeps [of ?before I] assms(1) by simp
  have "''TTS.api'' \<notin> set (sys_modules ?J)"
    using assms(2)
    by (simp add: run_imports_Cons run_imports_Nil import_module_sys_modules)
  then have "tts_api_lookup (import_module ''TTS.api'' ?J) =
      Some (module_getattr (transformers I) ''BeamSearchScorer'')"
    by (simp add: import_TTS_api_lookup J)
  then have "tts_api_lookup (run_imports main_imports I) =
      Some (module_getattr (transformers I) ''BeamSearchScorer'')"
    unfolding split by (simp add: run_imports_lookup_other)
  then show ?thesis
    using run_imports_keeps [OF all assms(1)] by simp
qed

theorem main_imports_never_run_patch_witness:
  "''patch_transformers'' \<notin> set (sys_modules fresh_interpreter)
   \<and> ''TTS.api'' \<notin> set (sys_modules fresh_interpreter)
   \<and> ''patch_transformers'' \<notin> set (sys_modules (run_imports main_imports fresh_interpreter))
   \<and> console (run_imports main_imports fresh_interpreter) = []
   \<and> transformers (run_imports main_imports fresh_interpreter) ''BeamSearchScorer'' = None
   \<and> tts_api_lookup (run_imports main_imports fresh_interpreter) =
       Some (Inl (Exception ''AttributeError''
         (''module '' @ quoted ''transformers'' @ '' has no attribute '' @
          quoted ''BeamSearchScorer'')))"
proof -
  have h1: "''patch_transformers'' \<notin> set (sys_modules fresh_interpreter)"
    and h2: "''TTS.api'' \<notin> set (sys_modules fresh_interpreter)"
    by (simp_all add: fresh_interpreter_def)
  show ?thesis
    using h1 h2 main_imports_never_run_patch [OF h1 h2]
    by (simp add: fresh_interpreter_def module_getattr_def AttributeError_def)
qed

text \<open>What the module would do if it were imported first, and that a second import is idle.\<close>

lemma import_module_cached:
  "name \<in> set (sys_modules I) \<Longrightarrow> import_module name I = I"
  by (simp add: import_module_def)

lemma patch_first_resolves:
  "tts_api_lookup (run_imports (''patch_transformers'' # main_imports) fresh_interpreter) =
     Some (Inr (PyClass ''BeamSearchScorer''))
   \<and> console (run_imports (''patch_transformers'' # main_imports) fresh_interpreter) =
     [check_mark @ '' Patched BeamSearchScorer into transformers namespace'']"
  by (simp add: run_imports_def main_imports_def import_module_def patch_transformers_def
      patch_try_def register_def hasattr_def module_getattr_def AttributeError_def echo_def
      fresh_interpreter_def Let_def)

section \<open>Validation of the form\<close>

lemma bind_generate_Inr:
  assumes "bind_generate form = Inr (t, l, s)"
  shows "text_field form = Some t" and "t \<noteq> []" and "speaker_wav_field form = Some s"
    and "l = (if language_field form = None \<or> language_field form = Some [] then ''en''
              else the (language_field form))"
  using assms
  by (auto simp: bind_generate_def bind_form_def bind_file_def Let_def
      split: option.splits if_splits)

lemma bind_generate_missing:
  assumes "text_field form = None \<or> text_field form = Some [] \<or> speaker_wav_field form = None"
  shows "bind_generate form =
           Inl ((if text_field form = None \<or> text_field form = Some [] then [''text''] else []) @
                (if speaker_wav_field form = None then [''speaker_wav''] else []))"
  using assms
  by (auto simp: bind_generate_def bind_form_def bind_file_def Let_def
      split: option.splits if_splits)

text \<open>
  Claim C7.  A request whose \<^verbatim>\<open>text\<close> is absent or empty, or whose \<^verbatim>\<open>speaker_wav\<close>
  is absent, is answered with the validation error 422 naming the missing fields, and the
  process is untouched: the handler, and so the model, is never reached.  Whenever the
  handler is reached, the text is the non-empty one of the form, the upload is the form's,
  and a language that was omitted has become \<^verbatim>\<open>en\<close>.
\<close>
theorem post_generate_validation:
  "(text_field form = None \<or> text_field form = Some [] \<or> speaker_wav_field form = None \<longrightarrow>
      (\<exists>missing. missing \<noteq> []
         \<and> set missing \<subseteq> {''text'', ''speaker_wav''}
         \<and> app_post_generate E form w =
             (HttpResponse 422 ''application/json''
                (JsonBody [(''detail'', JList (map JString missing))]), w)))
   \<and> (\<forall>t l s. bind_generate form = Inr (t, l, s) \<longrightarrow>
         text_field form = Some t \<and> t \<noteq> [] \<and> speaker_wav_field form = Some s
       \<and> (language_field form = None \<longrightarrow> l = ''en'')
       \<and> app_post_generate E form w =
           (http_of (fst (generate_speech E t l s w)), snd (generate_speech E t l s w)))"
proof (intro conjI impI allI)
  assume miss: "text_field form = None \<or> text_field form = Some [] \<or> speaker_wav_field form = None"
  let ?missing = "(if text_field form = None \<or> text_field form = Some [] then [''text''] else []) @
                  (if speaker_wav_field form = None then [''speaker_wav''] else [])"
  have "?missing \<noteq> []" using miss by auto
  moreover have "set ?missing \<subseteq> {''text'', ''speaker_wav''}" by auto
  moreover have "app_post_generate E form w =
      (HttpResponse 422 ''application/json''
         (JsonBody [(''detail'', JList (map JString ?missing))]), w)"
    unfolding app_post_generate_def bind_generate_missing [OF miss] by simp
  ultimately show "\<exists>missing. missing \<noteq> []
         \<and> set missing \<subseteq> {''text'', ''speaker_wav''}
         \<and> app_post_generate E form w =
             (HttpResponse 422 ''application/json''
                (JsonBody [(''detail'', JList (map JString missing))]), w)"
    by blast
next
  fix t l s
  assume ok: "bind_generate form = Inr (t, l, s)"
  show "text_field form = Some t" "t \<noteq> []" "speaker_wav_field form = Some s"
    using bind_generate_Inr [OF ok] by simp_all
  show "l = ''en''" if "language_field form = None"
    using bind_generate_Inr(4) [OF ok] that by simp
  show "app_post_generate E form w =
      (http_of (fst (generate_speech E t l s w)), snd (generate_speech E t l s w))"
    by (simp add: app_post_generate_def ok split: prod.splits)
qed

lemma post_generate_sample_default_language:
  "bind_generate \<lparr>text_field = Some ''hello'', language_field = None,
                  speaker_wav_field = Some [1, 2]\<rparr> = Inr (''hello'', ''en'', [1, 2])"
  by (simp add: bind_generate_def bind_form_def bind_file_def)

theorem post_generate_validation_witness:
  "app_post_generate sample_env
     \<lparr>text_field = None, language_field = Some ''en'', speaker_wav_field = Some [1, 2]\<rparr>
     loaded_process =
     (HttpResponse 422 ''application/json'' (JsonBody [(''detail'', JList [JString ''text''])]),
      loaded_process)
   \<and> status (fst (app_post_generate sample_env
        \<lparr>text_field = Some ''hello'', language_field = None, speaker_wav_field = None\<rparr>
        loaded_process)) = 422
   \<and> calls (snd (app_post_generate sample_env
        \<lparr>text_field = Some ''hello'', language_field = None, speaker_wav_field = None\<rparr>
        loaded_process)) = []
   \<and> app_post_generate sample_env
        \<lparr>text_field = Some ''hello'', language_field = None, speaker_wav_field = Some [1, 2]\<rparr>
        loaded_process =
      (http_of (fst (generate_speech sample_env ''hello'' ''en'' [1, 2] loaded_process)),
       snd (generate_speech sample_env ''hello'' ''en'' [1, 2] loaded_process))"
proof -
  let ?no_text = "\<lparr>text_field = None, language_field = Some ''en'',
                    speaker_wav_field = Some [1 :: 8 word, 2]\<rparr>"
  let ?no_file = "\<lparr>text_field = Some ''hello'', language_field = None,
                    speaker_wav_field = None :: bytes option\<rparr>"
  let ?ok = "\<lparr>text_field = Some ''hello'', language_field = None,
               speaker_wav_field = Some [1 :: 8 word, 2]\<rparr>"
  from post_generate_validation [of ?no_text sample_env loaded_process]
  have a: "app_post_generate sample_env ?no_text loaded_process =
      (HttpResponse 422 ''application/json'' (JsonBody [(''detail'', JList [JString ''text''])]),
       loaded_process)"
    by (simp add: app_post_generate_def bind_generate_def bind_form_def bind_file_def)
  from post_generate_validation [of ?no_file sample_env loaded_process]
  obtain missing where "app_post_generate sample_env ?no_file loaded_process =
      (HttpResponse 422 ''application/json''
         (JsonBody [(''detail'', JList (map JString missing))]), loaded_process)"
    by auto
  then have b: "status (fst (app_post_generate sample_env ?no_file loaded_process)) = 422"
    and c: "calls (snd (app_post_generate sample_env ?no_file loaded_process)) = []"
    by (simp_all add: loaded_process_def initial_process_def)
  from post_generate_validation [of ?ok sample_env loaded_process]
    post_generate_sample_default_language
  have d: "app_post_generate sample_env ?ok loaded_process =
      (http_of (fst (generate_speech sample_env ''hello'' ''en'' [1, 2] loaded_process)),
       snd (generate_speech sample_env ''hello'' ''en'' [1, 2] loaded_process))"
    by simp
  show ?thesis using a b c d by simp
qed

end
